theory Spec2Isabelle
  imports Complex_Main
begin

section \<open>The GCC cost calculator (\<^verbatim>\<open>calculate_costs\<close> of \<^verbatim>\<open>app.py\<close>)\<close>

text \<open>
  The calculator reads three pandas data frames and a request. A data frame is modelled
  as the list of its rows in table order, a row as a record of the columns the function
  reads. Numbers: the headcount is a Python \<^verbatim>\<open>int\<close> (\<^typ>\<open>int\<close>); the cost
  columns and the computed costs are Python floats, modelled as \<^typ>\<open>real\<close>, so
  \<^verbatim>\<open>float(x)\<close> is the identity and rounding of float64 is not part of the model.
\<close>

subsection \<open>Tables\<close>

text \<open>A row of the sheets \<^verbatim>\<open>Real_Estate\<close> and \<^verbatim>\<open>IT_Infra\<close>.\<close>

record cost_row =
  Tier :: string
  City :: string
  Cost_INR_PM :: real

text \<open>A row of the sheet \<^verbatim>\<open>Plans\<close>.\<close>

record plan_row =
  MinHC :: int
  MaxHC :: int
  Enab_Basic :: real
  Enab_Premium :: real
  Enab_Advance :: real
  Tech_Basic :: real
  Tech_Premium :: real
  Tech_Advance :: real

subsection \<open>Results and exceptions\<close>

text \<open>
  The six values \<^verbatim>\<open>calculate_costs\<close> returns when it succeeds. When it fails it
  returns the tuple of six \<^verbatim>\<open>None\<close>, modelled as \<^term>\<open>None\<close>.
\<close>

record cost_breakdown =
  total_real_estate_cost :: real
  total_it_infra_cost :: real
  enab_cost :: real
  tech_cost :: real
  total_cost :: real
  hourly_cost_per_head_usd :: real

text \<open>
  The exceptions the body of the \<^verbatim>\<open>try\<close> block can raise on well-formed tables:
  \<^verbatim>\<open>.values[0]\<close> on an empty selection raises \<^verbatim>\<open>IndexError\<close> (a subclass of
  Python's \<^verbatim>\<open>LookupError\<close>), and a float divided by the integer 0 raises
  \<^verbatim>\<open>ZeroDivisionError\<close>.
\<close>

datatype py_exception = IndexError | ZeroDivisionError

subsection \<open>City lookup\<close>

text \<open>
  \<^verbatim>\<open>df[df["City"] == selected_city]["Cost_INR_PM"].values\<close>: the costs of the rows
  whose city equals the selected one, in table order. The column \<^verbatim>\<open>Tier\<close> is not
  read.
\<close>

definition city_cost_values :: "cost_row list \<Rightarrow> string \<Rightarrow> real list" where
  "city_cost_values df selected_city =
     map Cost_INR_PM (filter (\<lambda>row. City row = selected_city) df)"

text \<open>\<^verbatim>\<open>values[0]\<close>: the first element, or \<^verbatim>\<open>IndexError\<close> on an empty array.\<close>

definition values_0 :: "'a list \<Rightarrow> py_exception + 'a" where
  "values_0 vals = (case vals of [] \<Rightarrow> Inl IndexError | v # _ \<Rightarrow> Inr v)"

definition cost_per_seat :: "cost_row list \<Rightarrow> string \<Rightarrow> py_exception + real" where
  "cost_per_seat df selected_city = values_0 (city_cost_values df selected_city)"

subsection \<open>Bracket scan\<close>

text \<open>
  The loop over \<^verbatim>\<open>plans_df.iterrows()\<close> that breaks at the first row with
  \<^verbatim>\<open>row["MinHC"] <= headcount <= row["MaxHC"]\<close>; \<^term>\<open>None\<close> is
  \<^verbatim>\<open>plan_row is None\<close> after the loop.
\<close>

fun find_plan_row :: "plan_row list \<Rightarrow> int \<Rightarrow> plan_row option" where
  "find_plan_row [] headcount = None"
| "find_plan_row (row # rows) headcount =
     (if MinHC row \<le> headcount \<and> headcount \<le> MaxHC row then Some row
      else find_plan_row rows headcount)"

text \<open>The two \<^verbatim>\<open>if / elif / else\<close> chains on the plan name.\<close>

definition enab_of_plan :: "plan_row \<Rightarrow> string \<Rightarrow> real" where
  "enab_of_plan plan_row selected_plan =
     (if selected_plan = ''Basic'' then Enab_Basic plan_row
      else if selected_plan = ''Premium'' then Enab_Premium plan_row
      else Enab_Advance plan_row)"

definition tech_of_plan :: "plan_row \<Rightarrow> string \<Rightarrow> real" where
  "tech_of_plan plan_row selected_plan =
     (if selected_plan = ''Basic'' then Tech_Basic plan_row
      else if selected_plan = ''Premium'' then Tech_Premium plan_row
      else Tech_Advance plan_row)"

subsection \<open>The calculation\<close>

definition usd_inr_rate :: real where
  "usd_inr_rate = 85"

definition hours_in_month :: real where
  "hours_in_month = 120"

text \<open>
  The category cost of a table: \<^verbatim>\<open>0.0\<close> when the toggle is off (the table is not
  read), otherwise the cost per seat times the headcount, or the lookup's exception.
\<close>

definition seat_cost :: "bool \<Rightarrow> cost_row list \<Rightarrow> string \<Rightarrow> int \<Rightarrow> py_exception + real" where
  "seat_cost toggle df selected_city headcount =
     (if toggle then
        (case cost_per_seat df selected_city of
           Inl e \<Rightarrow> Inl e
         | Inr per_seat \<Rightarrow> Inr (per_seat * of_int headcount))
      else Inr 0)"

text \<open>
  The body of the \<^verbatim>\<open>try\<close> block, statement by statement. \<^term>\<open>Inl e\<close> is an
  exception raised, \<^term>\<open>Inr None\<close> the early return of six \<^verbatim>\<open>None\<close> when no
  bracket matched, \<^term>\<open>Inr (Some r)\<close> the final return. The program adds in
  float64, grouped as \<^verbatim>\<open>(re + it) + (enab + tech)\<close>; the model keeps this grouping but
  adds exactly, so it says nothing about how differently grouped float sums compare.
\<close>

definition calculate_costs_try ::
  "int \<Rightarrow> string \<Rightarrow> string \<Rightarrow> bool \<Rightarrow> bool \<Rightarrow> bool \<Rightarrow> bool \<Rightarrow>
   cost_row list \<Rightarrow> cost_row list \<Rightarrow> plan_row list \<Rightarrow> py_exception + cost_breakdown option" where
  "calculate_costs_try headcount selected_city selected_plan real_estate_toggle
     it_infra_toggle enabling_toggle technology_toggle real_estate_df it_infra_df plans_df =
     (case seat_cost real_estate_toggle real_estate_df selected_city headcount of
        Inl e \<Rightarrow> Inl e
      | Inr re_cost \<Rightarrow>
     (case seat_cost it_infra_toggle it_infra_df selected_city headcount of
        Inl e \<Rightarrow> Inl e
      | Inr it_cost \<Rightarrow>
     (case find_plan_row plans_df headcount of
        None \<Rightarrow> Inr None
      | Some plan_row \<Rightarrow>
          (let enab = (if enabling_toggle then enab_of_plan plan_row selected_plan else 0);
               tech = (if technology_toggle then tech_of_plan plan_row selected_plan else 0);
               total_plan_cost = enab + tech;
               total = re_cost + it_cost + total_plan_cost
           in if headcount = 0 then Inl ZeroDivisionError
              else Inr (Some \<lparr>total_real_estate_cost = re_cost,
                              total_it_infra_cost = it_cost,
                              enab_cost = enab,
                              tech_cost = tech,
                              total_cost = total,
                              hourly_cost_per_head_usd =
                                (total / of_int headcount / hours_in_month) / usd_inr_rate\<rparr>)))))"

text \<open>
  The whole function: \<^verbatim>\<open>except Exception\<close> logs and returns six \<^verbatim>\<open>None\<close>, the same
  value as the early return.
\<close>

definition calculate_costs ::
  "int \<Rightarrow> string \<Rightarrow> string \<Rightarrow> bool \<Rightarrow> bool \<Rightarrow> bool \<Rightarrow> bool \<Rightarrow>
   cost_row list \<Rightarrow> cost_row list \<Rightarrow> plan_row list \<Rightarrow> cost_breakdown option" where
  "calculate_costs headcount selected_city selected_plan real_estate_toggle
     it_infra_toggle enabling_toggle technology_toggle real_estate_df it_infra_df plans_df =
     (case calculate_costs_try headcount selected_city selected_plan real_estate_toggle
             it_infra_toggle enabling_toggle technology_toggle real_estate_df it_infra_df plans_df of
        Inl e \<Rightarrow> None
      | Inr res \<Rightarrow> res)"

section \<open>Properties\<close>

subsection \<open>Facts about the lookup and the scan\<close>

lemma cost_per_seat_Nil [simp]: "cost_per_seat [] c = Inl IndexError"
  by (simp add: cost_per_seat_def city_cost_values_def values_0_def)

lemma cost_per_seat_Cons [simp]:
  "cost_per_seat (row # df) c = (if City row = c then Inr (Cost_INR_PM row) else cost_per_seat df c)"
  by (simp add: cost_per_seat_def city_cost_values_def values_0_def)

lemma cost_per_seat_absent:
  "c \<notin> City ` set df \<Longrightarrow> cost_per_seat df c = Inl IndexError"
  by (induction df) auto

lemma cost_per_seat_Inl:
  "cost_per_seat df c = Inl e \<Longrightarrow> e = IndexError"
  by (induction df) (auto split: if_splits)

lemma cost_per_seat_present:
  "c \<in> City ` set df \<Longrightarrow> \<exists>v. cost_per_seat df c = Inr v"
  by (induction df) auto

lemma cost_per_seat_first:
  "\<forall>r \<in> set pre. City r \<noteq> c \<Longrightarrow> City row = c \<Longrightarrow>
   cost_per_seat (pre @ row # post) c = Inr (Cost_INR_PM row)"
  by (induction pre) auto

lemma cost_per_seat_tier:
  "cost_per_seat (map (\<lambda>r. r\<lparr>Tier := f r\<rparr>) df) c = cost_per_seat df c"
  by (induction df) auto

lemma find_plan_row_None_iff:
  "find_plan_row plans_df headcount = None \<longleftrightarrow>
   (\<forall>row \<in> set plans_df. \<not> (MinHC row \<le> headcount \<and> headcount \<le> MaxHC row))"
  by (induction plans_df) auto

lemma find_plan_row_first:
  "\<forall>r \<in> set pre. \<not> (MinHC r \<le> headcount \<and> headcount \<le> MaxHC r) \<Longrightarrow>
   MinHC row \<le> headcount \<Longrightarrow> headcount \<le> MaxHC row \<Longrightarrow>
   find_plan_row (pre @ row # post) headcount = Some row"
  by (induction pre) auto

lemma find_plan_row_Some_split:
  "find_plan_row plans_df headcount = Some row \<Longrightarrow>
   \<exists>pre post. plans_df = pre @ row # post \<and> MinHC row \<le> headcount \<and> headcount \<le> MaxHC row \<and>
     (\<forall>r \<in> set pre. \<not> (MinHC r \<le> headcount \<and> headcount \<le> MaxHC r))"
proof (induction plans_df)
  case Nil
  then show ?case by simp
next
  case (Cons a plans_df)
  show ?case
  proof (cases "MinHC a \<le> headcount \<and> headcount \<le> MaxHC a")
    case True
    with Cons.prems have "a = row" by simp
    with True have "a # plans_df = [] @ row # plans_df \<and> MinHC row \<le> headcount \<and> headcount \<le> MaxHC row \<and>
       (\<forall>r \<in> set []. \<not> (MinHC r \<le> headcount \<and> headcount \<le> MaxHC r))" by simp
    then show ?thesis by blast
  next
    case False
    with Cons.prems have "find_plan_row plans_df headcount = Some row" by simp
    from Cons.IH[OF this] obtain pre post where
      p: "plans_df = pre @ row # post" "MinHC row \<le> headcount" "headcount \<le> MaxHC row"
        "\<forall>r \<in> set pre. \<not> (MinHC r \<le> headcount \<and> headcount \<le> MaxHC r)" by blast
    with False have "a # plans_df = (a # pre) @ row # post \<and> MinHC row \<le> headcount \<and> headcount \<le> MaxHC row \<and>
       (\<forall>r \<in> set (a # pre). \<not> (MinHC r \<le> headcount \<and> headcount \<le> MaxHC r))" by simp
    then show ?thesis by blast
  qed
qed

lemma seat_cost_first:
  "\<forall>r \<in> set pre. City r \<noteq> c \<Longrightarrow> City row = c \<Longrightarrow>
   seat_cost toggle (pre @ row # post) c headcount = seat_cost toggle [row] c headcount"
  by (simp add: seat_cost_def cost_per_seat_first)

lemma seat_cost_off: "seat_cost False df c headcount = Inr 0"
  by (simp add: seat_cost_def)

lemma seat_cost_ok:
  "(toggle \<longrightarrow> c \<in> City ` set df) \<Longrightarrow>
   \<exists>v. seat_cost toggle df c headcount = Inr v \<and> (\<not> toggle \<longrightarrow> v = 0)"
  using cost_per_seat_present [of c df] by (auto simp: seat_cost_def)

lemmas cc_defs = calculate_costs_def calculate_costs_try_def seat_cost_def

subsection \<open>The worked example\<close>

text \<open>
  Claim C3. With the real-estate table mapping CityA to 10000, the IT-infra table mapping
  CityA to 5000, one bracket [1,100] with enabling Basic cost 2000 and technology Basic
  cost 3000 (the other four cost fields arbitrary), and the request headcount 10, city
  CityA, plan Basic, all four toggles on, the function returns 100000, 50000, 2000, 3000,
  the total 155000 and the hourly rate (155000/10/120)/85, which is 1.519608 to six
  decimals.
\<close>

theorem calculate_costs_example:
  "calculate_costs 10 ''CityA'' ''Basic'' True True True True
     [\<lparr>Tier = ''Tier 1'', City = ''CityA'', Cost_INR_PM = 10000\<rparr>]
     [\<lparr>Tier = ''Tier1'', City = ''CityA'', Cost_INR_PM = 5000\<rparr>]
     [\<lparr>MinHC = 1, MaxHC = 100, Enab_Basic = 2000, Enab_Premium = ep, Enab_Advance = ea,
       Tech_Basic = 3000, Tech_Premium = tp, Tech_Advance = ta\<rparr>]
   = Some \<lparr>total_real_estate_cost = 100000, total_it_infra_cost = 50000,
           enab_cost = 2000, tech_cost = 3000, total_cost = 155000,
           hourly_cost_per_head_usd = (155000 / 10 / 120) / 85\<rparr>
   \<and> \<bar>(155000 / 10 / 120) / 85 - (1.519608 :: real)\<bar> < 0.0000005"
  by (simp add: calculate_costs_def calculate_costs_try_def seat_cost_def
      enab_of_plan_def tech_of_plan_def usd_inr_rate_def hours_in_month_def)

subsection \<open>The hourly rate\<close>

text \<open>
  Claim C1. For every request with positive headcount matching some bracket, the hourly
  cost per head in USD that \<^verbatim>\<open>calculate_costs\<close> returns is
  (total cost / headcount / 120) / 85.
\<close>

theorem hourly_cost_per_head_formula:
  assumes "0 < headcount"
    and "find_plan_row plans_df headcount = Some plan_row"
    and "calculate_costs headcount selected_city selected_plan real_estate_toggle it_infra_toggle
           enabling_toggle technology_toggle real_estate_df it_infra_df plans_df = Some r"
  shows "hourly_cost_per_head_usd r = (total_cost r / of_int headcount / 120) / 85"
  using assms
  by (auto simp: cc_defs Let_def usd_inr_rate_def hours_in_month_def split: sum.splits if_splits)

theorem hourly_cost_per_head_formula_witness:
  "hourly_cost_per_head_usd
     (the (calculate_costs 10 ''CityA'' ''Premium'' True False True True
        [\<lparr>Tier = ''Tier 1'', City = ''CityA'', Cost_INR_PM = 10000\<rparr>] []
        [\<lparr>MinHC = 1, MaxHC = 100, Enab_Basic = 2000, Enab_Premium = 2500, Enab_Advance = 2900,
          Tech_Basic = 3000, Tech_Premium = 3500, Tech_Advance = 3900\<rparr>]))
   = (106000 / 10 / 120) / 85"
proof -
  let ?re = "[\<lparr>Tier = ''Tier 1'', City = ''CityA'', Cost_INR_PM = 10000\<rparr>]"
  let ?pl = "[\<lparr>MinHC = 1, MaxHC = 100, Enab_Basic = 2000, Enab_Premium = 2500, Enab_Advance = 2900,
          Tech_Basic = 3000, Tech_Premium = 3500, Tech_Advance = 3900\<rparr>]"
  let ?r = "\<lparr>total_real_estate_cost = 100000, total_it_infra_cost = 0,
           enab_cost = 2500, tech_cost = 3500, total_cost = 106000,
           hourly_cost_per_head_usd = (106000 / 10 / 120) / 85\<rparr>"
  have pos: "(0::int) < 10" by simp
  have br: "find_plan_row ?pl 10 = Some (hd ?pl)" by simp
  have ret: "calculate_costs 10 ''CityA'' ''Premium'' True False True True ?re [] ?pl = Some ?r"
    by (simp add: cc_defs enab_of_plan_def tech_of_plan_def usd_inr_rate_def hours_in_month_def)
  from hourly_cost_per_head_formula [OF pos br ret] ret show ?thesis by simp
qed

subsection \<open>Bracket selection and city lookup\<close>

text \<open>
  Claim C4. Bracket selection is first-match in table order: if a row contains the
  headcount and no row before it does, that row is selected, and the function returns what
  it would return if that row were the only bracket, whatever rows follow. With the
  overlapping brackets [1,50] then [40,100] and headcount 45 the first one is selected.
\<close>

theorem bracket_first_match:
  assumes "plans_df = pre @ row # post"
    and "MinHC row \<le> headcount" and "headcount \<le> MaxHC row"
    and "\<forall>r \<in> set pre. \<not> (MinHC r \<le> headcount \<and> headcount \<le> MaxHC r)"
  shows "find_plan_row plans_df headcount = Some row
       \<and> calculate_costs headcount selected_city selected_plan real_estate_toggle it_infra_toggle
           enabling_toggle technology_toggle real_estate_df it_infra_df plans_df
         = calculate_costs headcount selected_city selected_plan real_estate_toggle it_infra_toggle
           enabling_toggle technology_toggle real_estate_df it_infra_df [row]"
proof -
  have sel: "find_plan_row plans_df headcount = Some row"
    using assms find_plan_row_first by blast
  have one: "find_plan_row [row] headcount = Some row"
    using assms(2,3) by simp
  show ?thesis
    unfolding calculate_costs_def calculate_costs_try_def sel one by simp
qed

theorem bracket_first_match_witness:
  "find_plan_row
     [\<lparr>MinHC = 1, MaxHC = 50, Enab_Basic = 2000, Enab_Premium = 2500, Enab_Advance = 2900,
       Tech_Basic = 3000, Tech_Premium = 3500, Tech_Advance = 3900\<rparr>,
      \<lparr>MinHC = 40, MaxHC = 100, Enab_Basic = 4000, Enab_Premium = 4500, Enab_Advance = 4900,
       Tech_Basic = 5000, Tech_Premium = 5500, Tech_Advance = 5900\<rparr>] 45
   = Some \<lparr>MinHC = 1, MaxHC = 50, Enab_Basic = 2000, Enab_Premium = 2500, Enab_Advance = 2900,
       Tech_Basic = 3000, Tech_Premium = 3500, Tech_Advance = 3900\<rparr>"
proof -
  let ?a = "\<lparr>MinHC = 1, MaxHC = 50, Enab_Basic = 2000, Enab_Premium = 2500, Enab_Advance = 2900,
       Tech_Basic = 3000, Tech_Premium = 3500, Tech_Advance = 3900\<rparr>"
  let ?b = "\<lparr>MinHC = 40, MaxHC = 100, Enab_Basic = 4000, Enab_Premium = 4500, Enab_Advance = 4900,
       Tech_Basic = 5000, Tech_Premium = 5500, Tech_Advance = 5900\<rparr>"
  have d: "[?a, ?b] = [] @ ?a # [?b]" by simp
  have lo: "MinHC ?a \<le> 45" and hi: "45 \<le> MaxHC ?a" by simp_all
  have none: "\<forall>r \<in> set []. \<not> (MinHC r \<le> 45 \<and> 45 \<le> MaxHC r)" by simp
  from bracket_first_match [OF d lo hi none] show ?thesis by blast
qed

text \<open>
  Claim C9. The city lookup matches by city alone and takes the first matching row in
  table order: if a row has the requested city and no row before it has, the cost per seat
  is that row's, changing the tiers of the table changes nothing, and in either table
  \<^verbatim>\<open>calculate_costs\<close> returns what it would return if that row were the whole table,
  so later rows of the same city are ignored.
\<close>

theorem city_lookup_first_row:
  assumes "df = pre @ row # post"
    and "City row = selected_city"
    and "\<forall>r \<in> set pre. City r \<noteq> selected_city"
  shows "cost_per_seat df selected_city = Inr (Cost_INR_PM row)
       \<and> cost_per_seat (map (\<lambda>r. r\<lparr>Tier := f r\<rparr>) df) selected_city = cost_per_seat df selected_city
       \<and> calculate_costs headcount selected_city selected_plan real_estate_toggle it_infra_toggle
           enabling_toggle technology_toggle df it_infra_df plans_df
         = calculate_costs headcount selected_city selected_plan real_estate_toggle it_infra_toggle
           enabling_toggle technology_toggle [row] it_infra_df plans_df
       \<and> calculate_costs headcount selected_city selected_plan real_estate_toggle it_infra_toggle
           enabling_toggle technology_toggle real_estate_df df plans_df
         = calculate_costs headcount selected_city selected_plan real_estate_toggle it_infra_toggle
           enabling_toggle technology_toggle real_estate_df [row] plans_df"
proof -
  have s: "\<And>toggle. seat_cost toggle df selected_city headcount
             = seat_cost toggle [row] selected_city headcount"
    using assms seat_cost_first by blast
  have 1: "cost_per_seat df selected_city = Inr (Cost_INR_PM row)"
    using assms cost_per_seat_first by blast
  have 2: "cost_per_seat (map (\<lambda>r. r\<lparr>Tier := f r\<rparr>) df) selected_city = cost_per_seat df selected_city"
    by (rule cost_per_seat_tier)
  have 3: "calculate_costs headcount selected_city selected_plan real_estate_toggle it_infra_toggle
           enabling_toggle technology_toggle df it_infra_df plans_df
         = calculate_costs headcount selected_city selected_plan real_estate_toggle it_infra_toggle
           enabling_toggle technology_toggle [row] it_infra_df plans_df"
    unfolding calculate_costs_def calculate_costs_try_def s ..
  have 4: "calculate_costs headcount selected_city selected_plan real_estate_toggle it_infra_toggle
           enabling_toggle technology_toggle real_estate_df df plans_df
         = calculate_costs headcount selected_city selected_plan real_estate_toggle it_infra_toggle
           enabling_toggle technology_toggle real_estate_df [row] plans_df"
    unfolding calculate_costs_def calculate_costs_try_def s ..
  from 1 2 3 4 show ?thesis by blast
qed

theorem city_lookup_first_row_witness:
  "cost_per_seat
     [\<lparr>Tier = ''Tier 2'', City = ''CityB'', Cost_INR_PM = 7000\<rparr>,
      \<lparr>Tier = ''Tier 1'', City = ''CityA'', Cost_INR_PM = 10000\<rparr>,
      \<lparr>Tier = ''Tier 3'', City = ''CityA'', Cost_INR_PM = 99999\<rparr>] ''CityA'' = Inr 10000"
proof -
  let ?b = "\<lparr>Tier = ''Tier 2'', City = ''CityB'', Cost_INR_PM = 7000\<rparr>"
  let ?a = "\<lparr>Tier = ''Tier 1'', City = ''CityA'', Cost_INR_PM = 10000\<rparr>"
  let ?d = "\<lparr>Tier = ''Tier 3'', City = ''CityA'', Cost_INR_PM = 99999\<rparr>"
  have d: "[?b, ?a, ?d] = [?b] @ ?a # [?d]" by simp
  have c: "City ?a = ''CityA''" by simp
  have n: "\<forall>r \<in> set [?b]. City r \<noteq> ''CityA''" by simp
  from city_lookup_first_row [OF d c n] show ?thesis by simp
qed

subsection \<open>Failures\<close>

text \<open>
  Claim C5. If no bracket contains the headcount, \<^verbatim>\<open>calculate_costs\<close> fails for the
  whole request, whatever the four toggles are: it returns the six \<^verbatim>\<open>None\<close> and no
  partial result. (The function has a single failure value; when an enabled city lookup
  raises first, the result is that same value.)
\<close>

theorem no_bracket_fails:
  assumes "\<forall>row \<in> set plans_df. \<not> (MinHC row \<le> headcount \<and> headcount \<le> MaxHC row)"
  shows "calculate_costs headcount selected_city selected_plan real_estate_toggle it_infra_toggle
           enabling_toggle technology_toggle real_estate_df it_infra_df plans_df = None"
proof -
  have "find_plan_row plans_df headcount = None"
    using assms by (simp add: find_plan_row_None_iff)
  then show ?thesis
    by (simp add: calculate_costs_def calculate_costs_try_def split: sum.splits)
qed

theorem no_bracket_fails_witness:
  "calculate_costs 150 ''CityA'' ''Basic'' True True False False
     [\<lparr>Tier = ''Tier 1'', City = ''CityA'', Cost_INR_PM = 10000\<rparr>]
     [\<lparr>Tier = ''Tier 1'', City = ''CityA'', Cost_INR_PM = 5000\<rparr>]
     [\<lparr>MinHC = 1, MaxHC = 100, Enab_Basic = 2000, Enab_Premium = 2500, Enab_Advance = 2900,
       Tech_Basic = 3000, Tech_Premium = 3500, Tech_Advance = 3900\<rparr>] = None"
proof -
  have "\<forall>row \<in> set [\<lparr>MinHC = 1, MaxHC = 100, Enab_Basic = 2000, Enab_Premium = 2500,
       Enab_Advance = 2900, Tech_Basic = 3000, Tech_Premium = 3500, Tech_Advance = 3900\<rparr>].
       \<not> (MinHC row \<le> 150 \<and> 150 \<le> MaxHC row)" by simp
  from no_bracket_fails [OF this] show ?thesis .
qed

text \<open>
  Claim C6. If the real-estate or the IT-infra toggle is on and the requested city is in no
  row of that table, the lookup raises \<^verbatim>\<open>IndexError\<close>, a \<^verbatim>\<open>LookupError\<close> of
  Python, and \<^verbatim>\<open>calculate_costs\<close> fails: no breakdown is returned, so none with
  that category set to zero.
\<close>

theorem missing_city_fails:
  assumes "(real_estate_toggle \<and> selected_city \<notin> City ` set real_estate_df)
         \<or> (it_infra_toggle \<and> selected_city \<notin> City ` set it_infra_df)"
  shows "calculate_costs_try headcount selected_city selected_plan real_estate_toggle it_infra_toggle
           enabling_toggle technology_toggle real_estate_df it_infra_df plans_df = Inl IndexError
       \<and> calculate_costs headcount selected_city selected_plan real_estate_toggle it_infra_toggle
           enabling_toggle technology_toggle real_estate_df it_infra_df plans_df = None"
proof -
  have "calculate_costs_try headcount selected_city selected_plan real_estate_toggle it_infra_toggle
           enabling_toggle technology_toggle real_estate_df it_infra_df plans_df = Inl IndexError"
    using assms
    by (auto simp: calculate_costs_try_def seat_cost_def cost_per_seat_absent
        split: sum.splits dest: cost_per_seat_Inl)
  then show ?thesis by (simp add: calculate_costs_def)
qed

theorem missing_city_fails_witness:
  "calculate_costs 10 ''CityB'' ''Basic'' True True True True
     [\<lparr>Tier = ''Tier 1'', City = ''CityB'', Cost_INR_PM = 10000\<rparr>]
     [\<lparr>Tier = ''Tier 1'', City = ''CityA'', Cost_INR_PM = 5000\<rparr>]
     [\<lparr>MinHC = 1, MaxHC = 100, Enab_Basic = 2000, Enab_Premium = 2500, Enab_Advance = 2900,
       Tech_Basic = 3000, Tech_Premium = 3500, Tech_Advance = 3900\<rparr>] = None"
proof -
  have "(True \<and> ''CityB'' \<notin> City ` set [\<lparr>Tier = ''Tier 1'', City = ''CityB'', Cost_INR_PM = 10000\<rparr>])
      \<or> (True \<and> ''CityB'' \<notin> City ` set [\<lparr>Tier = ''Tier 1'', City = ''CityA'', Cost_INR_PM = 5000\<rparr>])"
    by simp
  from missing_city_fails [OF this] show ?thesis by blast
qed

text \<open>
  Claim C7 says that headcount 0 is rejected as invalid input and that no division by zero
  is ever performed. The function does not validate the headcount: when a bracket
  contains 0 the division \<^verbatim>\<open>total_cost / headcount\<close> is executed and raises.
\<close>

theorem headcount_zero_divides:
  "calculate_costs_try 0 ''CityA'' ''Basic'' True True True True
     [\<lparr>Tier = ''Tier 1'', City = ''CityA'', Cost_INR_PM = 10000\<rparr>]
     [\<lparr>Tier = ''Tier 1'', City = ''CityA'', Cost_INR_PM = 5000\<rparr>]
     [\<lparr>MinHC = 0, MaxHC = 100, Enab_Basic = 2000, Enab_Premium = 2500, Enab_Advance = 2900,
       Tech_Basic = 3000, Tech_Premium = 3500, Tech_Advance = 3900\<rparr>] = Inl ZeroDivisionError"
  by (simp add: calculate_costs_try_def seat_cost_def)

text \<open>
  Claim C7, amended. A request with headcount 0 always fails (six \<^verbatim>\<open>None\<close>), but
  not by validation: an enabled lookup of an absent city raises \<^verbatim>\<open>IndexError\<close>,
  otherwise no bracket containing 0 gives the early return, and otherwise the division by
  the headcount raises \<^verbatim>\<open>ZeroDivisionError\<close>, which the handler catches.
\<close>

theorem headcount_zero_fails:
  "calculate_costs 0 selected_city selected_plan real_estate_toggle it_infra_toggle
     enabling_toggle technology_toggle real_estate_df it_infra_df plans_df = None
   \<and> calculate_costs_try 0 selected_city selected_plan real_estate_toggle it_infra_toggle
     enabling_toggle technology_toggle real_estate_df it_infra_df plans_df =
     (if (real_estate_toggle \<and> selected_city \<notin> City ` set real_estate_df)
         \<or> (it_infra_toggle \<and> selected_city \<notin> City ` set it_infra_df) then Inl IndexError
      else if find_plan_row plans_df 0 = None then Inr None
      else Inl ZeroDivisionError)"
proof -
  let ?t = "calculate_costs_try 0 selected_city selected_plan real_estate_toggle it_infra_toggle
     enabling_toggle technology_toggle real_estate_df it_infra_df plans_df"
  let ?miss = "(real_estate_toggle \<and> selected_city \<notin> City ` set real_estate_df)
         \<or> (it_infra_toggle \<and> selected_city \<notin> City ` set it_infra_df)"
  have t: "?t = (if ?miss then Inl IndexError
      else if find_plan_row plans_df 0 = None then Inr None
      else Inl ZeroDivisionError)"
  proof (cases ?miss)
    case True
    then have "?t = Inl IndexError"
      by (auto simp: calculate_costs_try_def seat_cost_def cost_per_seat_absent
        split: sum.splits dest: cost_per_seat_Inl)
    with True show ?thesis by simp
  next
    case False
    then have re: "real_estate_toggle \<longrightarrow> selected_city \<in> City ` set real_estate_df"
      and it: "it_infra_toggle \<longrightarrow> selected_city \<in> City ` set it_infra_df" by blast+
    from seat_cost_ok [OF re] obtain a where
      a: "seat_cost real_estate_toggle real_estate_df selected_city 0 = Inr a" by blast
    from seat_cost_ok [OF it] obtain b where
      b: "seat_cost it_infra_toggle it_infra_df selected_city 0 = Inr b" by blast
    have "?t = (if find_plan_row plans_df 0 = None then Inr None else Inl ZeroDivisionError)"
      by (simp add: calculate_costs_try_def a b split: option.splits)
    with False show ?thesis by simp
  qed
  have "calculate_costs 0 selected_city selected_plan real_estate_toggle it_infra_toggle
     enabling_toggle technology_toggle real_estate_df it_infra_df plans_df = None"
    unfolding calculate_costs_def t by simp
  with t show ?thesis by blast
qed

theorem headcount_zero_fails_witness:
  "calculate_costs 0 ''CityA'' ''Basic'' True False True True
     [\<lparr>Tier = ''Tier 1'', City = ''CityA'', Cost_INR_PM = 10000\<rparr>] []
     [\<lparr>MinHC = 1, MaxHC = 100, Enab_Basic = 2000, Enab_Premium = 2500, Enab_Advance = 2900,
       Tech_Basic = 3000, Tech_Premium = 3500, Tech_Advance = 3900\<rparr>] = None"
  using headcount_zero_fails [of "''CityA''" "''Basic''" True False True True
     "[\<lparr>Tier = ''Tier 1'', City = ''CityA'', Cost_INR_PM = 10000\<rparr>]" "[]"
     "[\<lparr>MinHC = 1, MaxHC = 100, Enab_Basic = 2000, Enab_Premium = 2500, Enab_Advance = 2900,
       Tech_Basic = 3000, Tech_Premium = 3500, Tech_Advance = 3900\<rparr>]"]
  by blast

text \<open>
  Claim C8 says that a plan name other than Basic, Premium and Advance is rejected. The
  \<^verbatim>\<open>else\<close> branches take every other name as Advance: the plan Gold is priced with
  the Advance fields.
\<close>

theorem unknown_plan_returns_breakdown:
  "calculate_costs 10 ''CityA'' ''Gold'' False False True True [] []
     [\<lparr>MinHC = 1, MaxHC = 100, Enab_Basic = 2000, Enab_Premium = 2500, Enab_Advance = 2900,
       Tech_Basic = 3000, Tech_Premium = 3500, Tech_Advance = 3900\<rparr>]
   = Some \<lparr>total_real_estate_cost = 0, total_it_infra_cost = 0,
           enab_cost = 2900, tech_cost = 3900, total_cost = 6800,
           hourly_cost_per_head_usd = (6800 / 10 / 120) / 85\<rparr>"
  by (simp add: cc_defs enab_of_plan_def tech_of_plan_def usd_inr_rate_def hours_in_month_def)

text \<open>
  Claim C8, amended. A request whose plan name is neither Basic nor Premium, Advance or
  not, gets exactly the result of the same request with the plan Advance.
\<close>

theorem unknown_plan_priced_as_advance:
  assumes "selected_plan \<noteq> ''Basic''" and "selected_plan \<noteq> ''Premium''"
  shows "calculate_costs headcount selected_city selected_plan real_estate_toggle it_infra_toggle
           enabling_toggle technology_toggle real_estate_df it_infra_df plans_df
       = calculate_costs headcount selected_city ''Advance'' real_estate_toggle it_infra_toggle
           enabling_toggle technology_toggle real_estate_df it_infra_df plans_df"
proof -
  have e: "\<And>row. enab_of_plan row selected_plan = enab_of_plan row ''Advance''"
    using assms by (simp add: enab_of_plan_def)
  have t: "\<And>row. tech_of_plan row selected_plan = tech_of_plan row ''Advance''"
    using assms by (simp add: tech_of_plan_def)
  show ?thesis
    unfolding calculate_costs_def calculate_costs_try_def e t ..
qed

theorem unknown_plan_priced_as_advance_witness:
  "calculate_costs 10 ''CityA'' ''Gold'' True True True True
     [\<lparr>Tier = ''Tier 1'', City = ''CityA'', Cost_INR_PM = 10000\<rparr>]
     [\<lparr>Tier = ''Tier 1'', City = ''CityA'', Cost_INR_PM = 5000\<rparr>]
     [\<lparr>MinHC = 1, MaxHC = 100, Enab_Basic = 2000, Enab_Premium = 2500, Enab_Advance = 2900,
       Tech_Basic = 3000, Tech_Premium = 3500, Tech_Advance = 3900\<rparr>]
   = calculate_costs 10 ''CityA'' ''Advance'' True True True True
     [\<lparr>Tier = ''Tier 1'', City = ''CityA'', Cost_INR_PM = 10000\<rparr>]
     [\<lparr>Tier = ''Tier 1'', City = ''CityA'', Cost_INR_PM = 5000\<rparr>]
     [\<lparr>MinHC = 1, MaxHC = 100, Enab_Basic = 2000, Enab_Premium = 2500, Enab_Advance = 2900,
       Tech_Basic = 3000, Tech_Premium = 3500, Tech_Advance = 3900\<rparr>]"
proof -
  have a: "''Gold'' \<noteq> ''Basic''" and b: "''Gold'' \<noteq> ''Premium''" by simp_all
  from unknown_plan_priced_as_advance [OF a b] show ?thesis .
qed

subsection \<open>Toggles that are off\<close>

text \<open>
  Claim C10 says that with a toggle off the computation succeeds as soon as the other
  enabled lookups and the bracket match succeed. With headcount 0 and a bracket that
  contains 0 it still fails, in the division.
\<close>

theorem toggle_off_zero_headcount_fails:
  "find_plan_row
     [\<lparr>MinHC = 0, MaxHC = 100, Enab_Basic = 2000, Enab_Premium = 2500, Enab_Advance = 2900,
       Tech_Basic = 3000, Tech_Premium = 3500, Tech_Advance = 3900\<rparr>] 0
   = Some \<lparr>MinHC = 0, MaxHC = 100, Enab_Basic = 2000, Enab_Premium = 2500, Enab_Advance = 2900,
       Tech_Basic = 3000, Tech_Premium = 3500, Tech_Advance = 3900\<rparr>
   \<and> cost_per_seat [\<lparr>Tier = ''Tier 1'', City = ''CityA'', Cost_INR_PM = 5000\<rparr>] ''CityA'' = Inr 5000
   \<and> calculate_costs 0 ''CityA'' ''Basic'' False True True True []
     [\<lparr>Tier = ''Tier 1'', City = ''CityA'', Cost_INR_PM = 5000\<rparr>]
     [\<lparr>MinHC = 0, MaxHC = 100, Enab_Basic = 2000, Enab_Premium = 2500, Enab_Advance = 2900,
       Tech_Basic = 3000, Tech_Premium = 3500, Tech_Advance = 3900\<rparr>] = None"
  by (simp add: cc_defs)

text \<open>
  Claim C10, amended. The table of a category whose toggle is off is never read: any other
  table in its place gives the same result, on every input. And when the headcount is not
  0, the bracket match succeeds and every enabled lookup finds the city,
  \<^verbatim>\<open>calculate_costs\<close> succeeds, and a category whose toggle is off costs exactly 0,
  whether or not the city is in its table.
\<close>

theorem toggle_off_table_unused:
  "(\<not> real_estate_toggle \<longrightarrow>
      calculate_costs headcount selected_city selected_plan real_estate_toggle it_infra_toggle
        enabling_toggle technology_toggle real_estate_df it_infra_df plans_df
    = calculate_costs headcount selected_city selected_plan real_estate_toggle it_infra_toggle
        enabling_toggle technology_toggle other_df it_infra_df plans_df)
   \<and> (\<not> it_infra_toggle \<longrightarrow>
      calculate_costs headcount selected_city selected_plan real_estate_toggle it_infra_toggle
        enabling_toggle technology_toggle real_estate_df it_infra_df plans_df
    = calculate_costs headcount selected_city selected_plan real_estate_toggle it_infra_toggle
        enabling_toggle technology_toggle real_estate_df other_df plans_df)
   \<and> (headcount \<noteq> 0
        \<and> find_plan_row plans_df headcount = Some plan_row
        \<and> (real_estate_toggle \<longrightarrow> selected_city \<in> City ` set real_estate_df)
        \<and> (it_infra_toggle \<longrightarrow> selected_city \<in> City ` set it_infra_df)
      \<longrightarrow> (\<exists>r. calculate_costs headcount selected_city selected_plan real_estate_toggle
                 it_infra_toggle enabling_toggle technology_toggle real_estate_df it_infra_df
                 plans_df = Some r
               \<and> (\<not> real_estate_toggle \<longrightarrow> total_real_estate_cost r = 0)
               \<and> (\<not> it_infra_toggle \<longrightarrow> total_it_infra_cost r = 0)))"
proof -
  have 1: "\<not> real_estate_toggle \<longrightarrow>
            calculate_costs headcount selected_city selected_plan real_estate_toggle it_infra_toggle
              enabling_toggle technology_toggle real_estate_df it_infra_df plans_df
          = calculate_costs headcount selected_city selected_plan real_estate_toggle it_infra_toggle
              enabling_toggle technology_toggle other_df it_infra_df plans_df"
  proof
    assume "\<not> real_estate_toggle"
    then have off: "real_estate_toggle = False" by simp
    show "calculate_costs headcount selected_city selected_plan real_estate_toggle it_infra_toggle
              enabling_toggle technology_toggle real_estate_df it_infra_df plans_df
          = calculate_costs headcount selected_city selected_plan real_estate_toggle it_infra_toggle
              enabling_toggle technology_toggle other_df it_infra_df plans_df"
      unfolding calculate_costs_def calculate_costs_try_def off seat_cost_off ..
  qed
  have 2: "\<not> it_infra_toggle \<longrightarrow>
            calculate_costs headcount selected_city selected_plan real_estate_toggle it_infra_toggle
              enabling_toggle technology_toggle real_estate_df it_infra_df plans_df
          = calculate_costs headcount selected_city selected_plan real_estate_toggle it_infra_toggle
              enabling_toggle technology_toggle real_estate_df other_df plans_df"
  proof
    assume "\<not> it_infra_toggle"
    then have off: "it_infra_toggle = False" by simp
    show "calculate_costs headcount selected_city selected_plan real_estate_toggle it_infra_toggle
              enabling_toggle technology_toggle real_estate_df it_infra_df plans_df
          = calculate_costs headcount selected_city selected_plan real_estate_toggle it_infra_toggle
              enabling_toggle technology_toggle real_estate_df other_df plans_df"
      unfolding calculate_costs_def calculate_costs_try_def off seat_cost_off ..
  qed
  have 3: "headcount \<noteq> 0
        \<and> find_plan_row plans_df headcount = Some plan_row
        \<and> (real_estate_toggle \<longrightarrow> selected_city \<in> City ` set real_estate_df)
        \<and> (it_infra_toggle \<longrightarrow> selected_city \<in> City ` set it_infra_df)
      \<longrightarrow> (\<exists>r. calculate_costs headcount selected_city selected_plan real_estate_toggle
                 it_infra_toggle enabling_toggle technology_toggle real_estate_df it_infra_df
                 plans_df = Some r
               \<and> (\<not> real_estate_toggle \<longrightarrow> total_real_estate_cost r = 0)
               \<and> (\<not> it_infra_toggle \<longrightarrow> total_it_infra_cost r = 0))"
  proof
    assume h: "headcount \<noteq> 0
        \<and> find_plan_row plans_df headcount = Some plan_row
        \<and> (real_estate_toggle \<longrightarrow> selected_city \<in> City ` set real_estate_df)
        \<and> (it_infra_toggle \<longrightarrow> selected_city \<in> City ` set it_infra_df)"
    then have nz: "headcount \<noteq> 0"
      and br: "find_plan_row plans_df headcount = Some plan_row"
      and re: "real_estate_toggle \<longrightarrow> selected_city \<in> City ` set real_estate_df"
      and it: "it_infra_toggle \<longrightarrow> selected_city \<in> City ` set it_infra_df"
      by blast+
    from seat_cost_ok [OF re] obtain a where
      a: "seat_cost real_estate_toggle real_estate_df selected_city headcount = Inr a"
         "\<not> real_estate_toggle \<longrightarrow> a = 0" by blast
    from seat_cost_ok [OF it] obtain b where
      b: "seat_cost it_infra_toggle it_infra_df selected_city headcount = Inr b"
         "\<not> it_infra_toggle \<longrightarrow> b = 0" by blast
    show "\<exists>r. calculate_costs headcount selected_city selected_plan real_estate_toggle
                 it_infra_toggle enabling_toggle technology_toggle real_estate_df it_infra_df
                 plans_df = Some r
               \<and> (\<not> real_estate_toggle \<longrightarrow> total_real_estate_cost r = 0)
               \<and> (\<not> it_infra_toggle \<longrightarrow> total_it_infra_cost r = 0)"
      using a(2) b(2) nz
      by (simp add: calculate_costs_def calculate_costs_try_def a(1) b(1) br Let_def)
  qed
  from 1 2 3 show ?thesis by blast
qed

theorem toggle_off_table_unused_witness:
  "(\<exists>r. calculate_costs 10 ''CityA'' ''Basic'' False True True True []
       [\<lparr>Tier = ''Tier 1'', City = ''CityA'', Cost_INR_PM = 5000\<rparr>]
       [\<lparr>MinHC = 1, MaxHC = 100, Enab_Basic = 2000, Enab_Premium = 2500, Enab_Advance = 2900,
         Tech_Basic = 3000, Tech_Premium = 3500, Tech_Advance = 3900\<rparr>] = Some r
      \<and> total_real_estate_cost r = 0)
   \<and> calculate_costs 10 ''CityA'' ''Basic'' False True True True []
       [\<lparr>Tier = ''Tier 1'', City = ''CityA'', Cost_INR_PM = 5000\<rparr>]
       [\<lparr>MinHC = 1, MaxHC = 100, Enab_Basic = 2000, Enab_Premium = 2500, Enab_Advance = 2900,
         Tech_Basic = 3000, Tech_Premium = 3500, Tech_Advance = 3900\<rparr>]
     = calculate_costs 10 ''CityA'' ''Basic'' False True True True
       [\<lparr>Tier = ''Tier 1'', City = ''CityA'', Cost_INR_PM = 10000\<rparr>]
       [\<lparr>Tier = ''Tier 1'', City = ''CityA'', Cost_INR_PM = 5000\<rparr>]
       [\<lparr>MinHC = 1, MaxHC = 100, Enab_Basic = 2000, Enab_Premium = 2500, Enab_Advance = 2900,
         Tech_Basic = 3000, Tech_Premium = 3500, Tech_Advance = 3900\<rparr>]"
proof -
  let ?re = "[\<lparr>Tier = ''Tier 1'', City = ''CityA'', Cost_INR_PM = 10000\<rparr>]"
  let ?it = "[\<lparr>Tier = ''Tier 1'', City = ''CityA'', Cost_INR_PM = 5000\<rparr>]"
  let ?p = "\<lparr>MinHC = 1, MaxHC = 100, Enab_Basic = 2000, Enab_Premium = 2500, Enab_Advance = 2900,
       Tech_Basic = 3000, Tech_Premium = 3500, Tech_Advance = 3900\<rparr>"
  have h: "(10::int) \<noteq> 0
      \<and> find_plan_row [?p] 10 = Some ?p
      \<and> (False \<longrightarrow> ''CityA'' \<in> City ` set [])
      \<and> (True \<longrightarrow> ''CityA'' \<in> City ` set ?it)" by simp
  note t = toggle_off_table_unused [of False 10 "''CityA''" "''Basic''" True True True
      "[]" ?it "[?p]" ?re ?p]
  from t h have s: "\<exists>r. calculate_costs 10 ''CityA'' ''Basic'' False True True True [] ?it [?p] = Some r
      \<and> total_real_estate_cost r = 0" by blast
  from t have i: "calculate_costs 10 ''CityA'' ''Basic'' False True True True [] ?it [?p]
      = calculate_costs 10 ''CityA'' ''Basic'' False True True True ?re ?it [?p]" by blast
  from s i show ?thesis by blast
qed

end
